theory Spec2Isabelle
  imports Complex_Main "HOL-Library.Log_Nat"
begin

section \<open>The result store of \<^verbatim>\<open>gamma_eval_app.py\<close>\<close>

text \<open>
  The program is a Streamlit script around one function, \<^verbatim>\<open>append_to_excel\<close>, which
  appends one row to one sheet of an Excel workbook. The workbook, pandas and the two
  Excel engines are outside the program: what they answer is an input of the model
  (\<open>store_env\<close>), what the function shows to the operator and what it writes is its result.

  A \<open>string\<close> is the list of the characters of a Python \<^verbatim>\<open>str\<close>; \<open>length\<close> is
  Python's \<^verbatim>\<open>len\<close>.
\<close>

subsection \<open>Data frames\<close>

text \<open>
  A cell of a frame is a missing value (pandas' NaN), a string or a number. A frame has its
  column labels and its rows, in order. The frames of this program come from
  \<^verbatim>\<open>pd.DataFrame([data_dict])\<close> (the labels are the keys of a dictionary) and from
  \<^verbatim>\<open>pd.read_excel\<close> (which renames a repeated header), so a label names one column.
\<close>

datatype cell = NaN | Str string | Num rat

record dataframe =
  columns :: "string list"
  rows :: "cell list list"

text \<open>\<^verbatim>\<open>pd.DataFrame([data_dict])\<close>: one row, the dictionary's keys as labels.\<close>

definition DataFrame :: "(string \<times> cell) list \<Rightarrow> dataframe" where
  "DataFrame data_dict = \<lparr>columns = map fst data_dict, rows = [map snd data_dict]\<rparr>"

text \<open>The cell of row \<open>r\<close> under the label \<open>c\<close>; NaN when the frame has no such column.\<close>

definition row_get :: "string list \<Rightarrow> cell list \<Rightarrow> string \<Rightarrow> cell" where
  "row_get cols r c = (case map_of (zip cols r) c of Some v \<Rightarrow> v | None \<Rightarrow> NaN)"

text \<open>
  \<^verbatim>\<open>df.reindex(columns=cols)\<close>: the frame with exactly the labels \<open>cols\<close>, in that
  order; a column of \<open>df\<close> that \<open>cols\<close> does not name is left out, a label that \<open>df\<close> does
  not have gives a column of NaN. The rows stay as many and in the same order.
\<close>

definition reindex :: "dataframe \<Rightarrow> string list \<Rightarrow> dataframe" where
  "reindex df cols =
     \<lparr>columns = cols, rows = map (\<lambda>r. map (row_get (columns df) r) cols) (rows df)\<rparr>"

text \<open>
  \<^verbatim>\<open>pd.concat([a, b], ignore_index=True)\<close>: the rows of \<open>a\<close>, then the rows of \<open>b\<close>,
  over the labels of \<open>a\<close> followed by the labels only \<open>b\<close> has.
\<close>

definition pd_concat :: "dataframe \<Rightarrow> dataframe \<Rightarrow> dataframe" where
  "pd_concat a b =
     (let cols = columns a @ filter (\<lambda>c. c \<notin> set (columns a)) (columns b)
      in \<lparr>columns = cols, rows = rows (reindex a cols) @ rows (reindex b cols)\<rparr>)"

definition standard_columns :: "string list" where
  "standard_columns =
     [''Timestamp'', ''Patient ID'', ''Location'', ''Threshold (%)'', ''Gamma (%)'',
      ''Normalization'', ''Gamma Octavius 4D (%)'']"

subsection \<open>Dictionaries that keep insertion order\<close>

text \<open>
  \<^verbatim>\<open>all_sheets\<close> is a Python dictionary, written back in the order of its keys:
  assigning to a key that is there keeps its place, a new key goes last.
\<close>

fun dict_set :: "('k \<times> 'v) list \<Rightarrow> 'k \<Rightarrow> 'v \<Rightarrow> ('k \<times> 'v) list" where
  "dict_set [] k v = [(k, v)]"
| "dict_set ((k', v') # kvs) k v =
     (if k' = k then (k, v) # kvs else (k', v') # dict_set kvs k v)"

subsection \<open>The environment of the store\<close>

text \<open>
  What the file system and the Excel engines answer during one call:
  \<^item> \<open>file_exists\<close>: \<^verbatim>\<open>os.path.exists(filename)\<close>;
  \<^item> \<open>open_file\<close>: \<^verbatim>\<open>pd.ExcelFile(filename, engine='openpyxl')\<close> raises
    \<^verbatim>\<open>FileNotFoundError\<close>, raises another exception, or gives the sheets in the
    order of \<^verbatim>\<open>xls.sheet_names\<close>; for each sheet \<^verbatim>\<open>pd.read_excel\<close> gives a frame or
    raises;
  \<^item> \<open>write_file\<close>: how writing with \<^verbatim>\<open>pd.ExcelWriter(filename, engine='xlsxwriter')\<close>
    ends.
\<close>

datatype sheet_read = Frame dataframe | SheetError

datatype open_result = NotFound | OpenError | Opened "(string \<times> sheet_read) list"

datatype write_result = WriteOk | WriteImportError | WritePermissionError | WriteError

record store_env =
  file_exists :: bool
  open_file :: open_result
  write_file :: write_result

text \<open>
  The dictionary comprehension
  \<^verbatim>\<open>{sheet: pd.read_excel(xls, sheet_name=sheet) for sheet in xls.sheet_names}\<close>:
  the first sheet that cannot be read raises, and no dictionary is built.
\<close>

fun read_sheets ::
  "(string \<times> dataframe) list \<Rightarrow> (string \<times> sheet_read) list \<Rightarrow> (string \<times> dataframe) list option"
where
  "read_sheets acc [] = Some acc"
| "read_sheets acc ((sheet, SheetError) # rest) = None"
| "read_sheets acc ((sheet, Frame df) # rest) = read_sheets (dict_set acc sheet df) rest"

subsection \<open>What the operator sees\<close>

text \<open>The calls of \<^verbatim>\<open>st.warning\<close>, \<^verbatim>\<open>st.success\<close> and \<^verbatim>\<open>st.error\<close> of \<^verbatim>\<open>append_to_excel\<close>.\<close>

datatype store_message =
    Warning_file_not_found
  | Warning_could_not_read
  | Success_saved string
  | Error_library_not_found
  | Error_permission_denied
  | Error_saving

fun is_warning :: "store_message \<Rightarrow> bool" where
  "is_warning Warning_file_not_found = True"
| "is_warning Warning_could_not_read = True"
| "is_warning _ = False"

fun is_error :: "store_message \<Rightarrow> bool" where
  "is_error Error_library_not_found = True"
| "is_error Error_permission_denied = True"
| "is_error Error_saving = True"
| "is_error _ = False"

subsection \<open>Column widths\<close>

text \<open>
  A width given to \<^verbatim>\<open>worksheet.set_column\<close> is a number or NaN. A written sheet is its
  frame and the calls \<^verbatim>\<open>set_column(idx, idx, width)\<close> made on it, in order.
\<close>

datatype width = Width nat | Width_nan

record worksheet =
  frame :: dataframe
  set_column :: "(nat \<times> width) list"

type_synonym workbook = "(string \<times> worksheet) list"

text \<open>The width a column ends with: that of the last call for its index, if any.\<close>

definition column_width :: "worksheet \<Rightarrow> nat \<Rightarrow> width option" where
  "column_width ws idx = map_of (rev (set_column ws)) idx"

text \<open>
  \<^verbatim>\<open>series.astype(str)\<close>: pandas writes NaN as \<^verbatim>\<open>nan\<close> and a string as itself; how
  it writes a number is the parameter \<open>num_str\<close>.
\<close>

fun astype_str :: "(rat \<Rightarrow> string) \<Rightarrow> cell \<Rightarrow> string" where
  "astype_str num_str NaN = ''nan''"
| "astype_str num_str (Str s) = s"
| "astype_str num_str (Num x) = num_str x"

text \<open>\<^verbatim>\<open>df[col]\<close>: the cells of one column, top down.\<close>

definition series :: "dataframe \<Rightarrow> string \<Rightarrow> cell list" where
  "series df col = map (\<lambda>r. row_get (columns df) r col) (rows df)"

text \<open>
  \<^verbatim>\<open>max((series.astype(str).map(len).max(), len(str(series.name)))) + 1\<close>.
  The \<^verbatim>\<open>max()\<close> of an empty pandas series is NaN; Python's \<^verbatim>\<open>max\<close> of a tuple that
  starts with NaN is NaN (no number compares greater than NaN), and NaN + 1 is NaN.
\<close>

fun max_len :: "(rat \<Rightarrow> string) \<Rightarrow> cell list \<Rightarrow> string \<Rightarrow> width" where
  "max_len num_str [] name = Width_nan"
| "max_len num_str (v # vs) name =
     Width (max (fold max (map (\<lambda>x. length (astype_str num_str x)) vs)
                  (length (astype_str num_str v)))
                (length name) + 1)"

text \<open>The branch \<^verbatim>\<open>isinstance(column_widths, dict)\<close>: a label without a width is skipped.\<close>

definition predefined_widths :: "(string \<times> nat) list \<Rightarrow> (nat \<times> width) list" where
  "predefined_widths column_widths =
     concat (map (\<lambda>(idx, col_name).
                    case map_of column_widths col_name of
                      Some w \<Rightarrow> [(idx, Width w)]
                    | None \<Rightarrow> [])
                 (enumerate 0 standard_columns))"

text \<open>The other branch: every column of the frame that is written gets a computed width.\<close>

definition auto_widths :: "(rat \<Rightarrow> string) \<Rightarrow> dataframe \<Rightarrow> (nat \<times> width) list" where
  "auto_widths num_str df_to_write =
     map (\<lambda>(idx, col). (idx, max_len num_str (series df_to_write col) col))
         (enumerate 0 (columns df_to_write))"

text \<open>One round of the loop \<^verbatim>\<open>for sheet, df in all_sheets.items()\<close>.\<close>

definition write_sheet ::
  "(rat \<Rightarrow> string) \<Rightarrow> (string \<times> nat) list option \<Rightarrow> dataframe \<Rightarrow> worksheet"
where
  "write_sheet num_str column_widths df =
     (let df_to_write = reindex df standard_columns
      in \<lparr>frame = df_to_write,
          set_column = (case column_widths of
                          Some d \<Rightarrow> predefined_widths d
                        | None \<Rightarrow> auto_widths num_str df_to_write)\<rparr>)"

subsection \<open>\<^verbatim>\<open>append_to_excel\<close>\<close>

text \<open>
  The first half of the function: the sheets read, the frame of the target sheet and the
  warnings. A read that fails leaves \<^verbatim>\<open>all_sheets\<close> as it was initialised, empty.
\<close>

definition load_sheets ::
  "store_env \<Rightarrow> string \<Rightarrow> dataframe
     \<Rightarrow> (string \<times> dataframe) list \<times> dataframe \<times> store_message list"
where
  "load_sheets env sheet_name new_data_df =
     (if file_exists env then
        (case open_file env of
           Opened sheets \<Rightarrow>
             (case read_sheets [] sheets of
                Some all_sheets \<Rightarrow>
                  (case map_of all_sheets sheet_name of
                     Some existing_df \<Rightarrow>
                       (all_sheets,
                        pd_concat (reindex existing_df standard_columns) new_data_df, [])
                   | None \<Rightarrow> (all_sheets, new_data_df, []))
              | None \<Rightarrow> ([], new_data_df, [Warning_could_not_read]))
         | NotFound \<Rightarrow> ([], new_data_df, [Warning_file_not_found])
         | OpenError \<Rightarrow> ([], new_data_df, [Warning_could_not_read]))
      else ([], new_data_df, []))"

text \<open>
  The whole function. The result is the messages shown and, when the writing went through,
  the workbook that was written; when the writing raised, nothing is said about the file.
  \<open>column_widths\<close> is \<open>None\<close> for an argument that is not a dictionary.
\<close>

definition append_to_excel ::
  "(rat \<Rightarrow> string) \<Rightarrow> store_env \<Rightarrow> string \<Rightarrow> (string \<times> cell) list
     \<Rightarrow> (string \<times> nat) list option \<Rightarrow> store_message list \<times> workbook option"
where
  "append_to_excel num_str env sheet_name data_dict column_widths =
     (let new_data_df = reindex (DataFrame data_dict) standard_columns;
          (all_sheets, updated_df, warnings) = load_sheets env sheet_name new_data_df;
          all_sheets = dict_set all_sheets sheet_name updated_df
      in case write_file env of
           WriteOk \<Rightarrow>
             (warnings @ [Success_saved sheet_name],
              Some (map (\<lambda>(sheet, df). (sheet, write_sheet num_str column_widths df))
                        all_sheets))
         | WriteImportError \<Rightarrow> (warnings @ [Error_library_not_found], None)
         | WritePermissionError \<Rightarrow> (warnings @ [Error_permission_denied], None)
         | WriteError \<Rightarrow> (warnings @ [Error_saving], None))"

subsection \<open>Reading the store, for stating its properties\<close>

text \<open>
  The row that \<^verbatim>\<open>pd.DataFrame([data_dict]).reindex(columns=standard_columns)\<close> holds:
  the record's value under each standard label, NaN under a label the record lacks.
\<close>

definition record_row :: "(string \<times> cell) list \<Rightarrow> cell list" where
  "record_row data_dict =
     map (\<lambda>c. case map_of data_dict c of Some v \<Rightarrow> v | None \<Rightarrow> NaN) standard_columns"

text \<open>
  What the first half of \<^verbatim>\<open>append_to_excel\<close> reads: the dictionary of all sheets when
  every sheet can be read, the empty dictionary when there is no file, \<open>None\<close> when the
  file is there and reading it raises.
\<close>

definition read_store :: "store_env \<Rightarrow> (string \<times> dataframe) list option" where
  "read_store env =
     (if file_exists env then
        (case open_file env of
           Opened sheets \<Rightarrow> read_sheets [] sheets
         | _ \<Rightarrow> None)
      else Some [])"

text \<open>A category (sheet) of a store that can be read.\<close>

definition category :: "store_env \<Rightarrow> string \<Rightarrow> dataframe option" where
  "category env sheet =
     (case read_store env of Some all_sheets \<Rightarrow> map_of all_sheets sheet | None \<Rightarrow> None)"

text \<open>The rows of a sheet in the workbook a call has written.\<close>

definition written_rows ::
  "store_message list \<times> workbook option \<Rightarrow> string \<Rightarrow> cell list list option" where
  "written_rows res sheet =
     (case snd res of
        None \<Rightarrow> None
      | Some wb \<Rightarrow> (case map_of wb sheet of None \<Rightarrow> None | Some ws \<Rightarrow> Some (rows (frame ws))))"

text \<open>A store that is absent or can be read.\<close>

definition readable :: "store_env \<Rightarrow> bool" where
  "readable env = (read_store env \<noteq> None)"

text \<open>The rows a category had before a call, over the standard labels.\<close>

definition prior_rows :: "store_env \<Rightarrow> string \<Rightarrow> cell list list" where
  "prior_rows env sheet =
     (case category env sheet of
        None \<Rightarrow> []
      | Some old \<Rightarrow> rows (reindex old standard_columns))"


subsection \<open>Example stores and records\<close>

definition legacy_frame :: dataframe where
  "legacy_frame = \<lparr>columns = [''Patient ID'', ''Comment''], rows = [[Str ''P1'', Str ''checked'']]\<rparr>"

definition legacy_store :: store_env where
  "legacy_store =
     \<lparr>file_exists = True,
      open_file = Opened [(''VMAT'', Frame legacy_frame)],
      write_file = WriteOk\<rparr>"

definition sample_record :: "(string \<times> cell) list" where
  "sample_record =
     [(''Timestamp'', Str ''2024-05-06 10:11:12''), (''Patient ID'', Str ''ABCDEFGHIJKL''),
      (''Location'', Str ''Recto''), (''Threshold (%)'', Num 10), (''Gamma (%)'', Num (9987 / 100)),
      (''Normalization'', Str ''Global''), (''Gamma Octavius 4D (%)'', Num 99)]"


definition second_record :: "(string \<times> cell) list" where
  "second_record =
     [(''Timestamp'', Str ''2024-05-07 09:00:00''), (''Patient ID'', Str ''MNOPQRSTUVWX''),
      (''Location'', Str ''Vejiga''), (''Threshold (%)'', Num 10), (''Gamma (%)'', Num 100),
      (''Normalization'', Str ''Local''), (''Gamma Octavius 4D (%)'', Num 98)]"

definition absent_store :: store_env where
  "absent_store = \<lparr>file_exists = False, open_file = NotFound, write_file = WriteOk\<rparr>"

text \<open>A workbook with a sheet that reads and a sheet on which \<^verbatim>\<open>pd.read_excel\<close> raises.\<close>

definition damaged_store :: store_env where
  "damaged_store =
     \<lparr>file_exists = True,
      open_file = Opened [(''VMAT'', Frame \<lparr>columns = standard_columns, rows = [record_row sample_record]\<rparr>),
                          (''SBRT-SRS'', SheetError)],
      write_file = WriteOk\<rparr>"

text \<open>A workbook with an empty sheet beside a category in the standard layout.\<close>

definition notes_store :: store_env where
  "notes_store =
     \<lparr>file_exists = True,
      open_file = Opened [(''Notes'', Frame \<lparr>columns = [], rows = []\<rparr>),
                          (''VMAT'', Frame \<lparr>columns = standard_columns, rows = [record_row sample_record]\<rparr>)],
      write_file = WriteOk\<rparr>"

text \<open>The dictionary \<^verbatim>\<open>col_widths\<close> of the script.\<close>

definition col_widths :: "(string \<times> nat) list" where
  "col_widths =
     [(''Timestamp'', 19), (''Patient ID'', 15), (''Location'', 25), (''Threshold (%)'', 12),
      (''Gamma (%)'', 10), (''Normalization'', 12), (''Gamma Octavius 4D (%)'', 22)]"

text \<open>A store that reads the category \<^verbatim>\<open>VMAT\<close> back as one row in the standard layout.\<close>

definition reread_store :: store_env where
  "reread_store =
     \<lparr>file_exists = True,
      open_file = Opened [(''VMAT'', Frame \<lparr>columns = standard_columns,
                                             rows = [record_row sample_record]\<rparr>)],
      write_file = WriteOk\<rparr>"

section \<open>The script\<close>

subsection \<open>Python floats\<close>

text \<open>
  A Python \<^verbatim>\<open>float\<close> is an IEEE 754 binary64 number; the finite ones are rationals
  \<open>m * 2 ^ e\<close> with \<open>|m| < 2 ^ 53\<close> and \<open>- 1074 \<le> e\<close>. An operation gives the float nearest
  to the exact result, a tie going to the even mantissa. The numbers of this program are
  at most a few hundred, so overflow is left out.
\<close>

definition round_half_even :: "rat \<Rightarrow> int" where
  "round_half_even x =
     (let f = \<lfloor>x\<rfloor>; d = x - of_int f
      in if d < 1 / 2 then f else if 1 / 2 < d then f + 1 else if even f then f else f + 1)"

text \<open>For \<open>0 < x\<close>, the \<open>k\<close> with \<open>2 ^ k \<le> x < 2 ^ (k + 1)\<close>.\<close>

definition ilog2 :: "rat \<Rightarrow> int" where
  "ilog2 x =
     (let (p, q) = quotient_of x; k = bitlen p - bitlen q
      in if 2 powi k \<le> x then k else k - 1)"

definition fl :: "rat \<Rightarrow> rat" where
  "fl x =
     (if x = 0 then 0
      else let e = max (ilog2 \<bar>x\<bar> - 52) (- 1074)
           in of_int (round_half_even (x / 2 powi e)) * 2 powi e)"

text \<open>\<^verbatim>\<open>x / y\<close> and \<open>x * y\<close> on floats.\<close>

definition float_div :: "rat \<Rightarrow> rat \<Rightarrow> rat" where
  "float_div x y = fl (x / y)"

definition float_mul :: "rat \<Rightarrow> rat \<Rightarrow> rat" where
  "float_mul x y = fl (x * y)"

text \<open>
  \<^verbatim>\<open>round(all_gamma, 2)\<close>. The number that pylinac's \<^verbatim>\<open>avg_gamma_pct\<close> returns is a
  numpy float, and \<^verbatim>\<open>round\<close> on a numpy float is numpy's: the float product with 100,
  rounded to the nearest integer (a tie to the even one), divided by 100 as a float.
\<close>

definition round2 :: "rat \<Rightarrow> rat" where
  "round2 x = float_div (of_int (round_half_even (float_mul x 100))) 100"

subsection \<open>The widgets and the parameters\<close>

datatype treatment_option = VMAT | SBRT | SRS

datatype norm_option = Local | Global

fun norm_label :: "norm_option \<Rightarrow> string" where
  "norm_label Local = ''Local''"
| "norm_label Global = ''Global''"

text \<open>
  Lines 169 to 178. \<^verbatim>\<open>dta = 0\<close> is an integer; \<^verbatim>\<open>0.44\<close>, \<^verbatim>\<open>0.69\<close> and \<^verbatim>\<open>0.1\<close> are
  the floats these literals denote.
\<close>

record gamma_parameters =
  dta :: rat
  dd :: rat
  res :: rat
  sheet_name :: string

definition parameters :: "treatment_option \<Rightarrow> gamma_parameters" where
  "parameters option =
     (if option = VMAT
      then \<lparr>dta = 0, dd = fl (44 / 100), res = fl (1 / 10), sheet_name = ''VMAT''\<rparr>
      else \<lparr>dta = 0, dd = fl (69 / 100), res = fl (1 / 10), sheet_name = ''SBRT-SRS''\<rparr>)"

definition normalize_flag :: "norm_option \<Rightarrow> bool" where
  "normalize_flag choice = (if choice = Local then False else True)"

text \<open>\<^verbatim>\<open>thd = thd_percent / 100.0\<close>.\<close>

definition thd :: "rat \<Rightarrow> rat" where
  "thd thd_percent = float_div thd_percent 100"

text \<open>
  The keyword arguments of \<^verbatim>\<open>calc_map\<close> and of \<^verbatim>\<open>avg_gamma_pct\<close>: the script passes
  the same five to both.
\<close>

record gamma_args =
  distTA :: rat
  doseTA :: rat
  threshold :: rat
  resolution :: rat
  normalize_arg :: bool

definition gamma_call :: "treatment_option \<Rightarrow> norm_option \<Rightarrow> rat \<Rightarrow> gamma_args" where
  "gamma_call option choice thd_percent =
     \<lparr>distTA = dta (parameters option), doseTA = dd (parameters option),
      threshold = thd thd_percent, resolution = res (parameters option),
      normalize_arg = normalize_flag choice\<rparr>"

subsection \<open>One run of the script\<close>

text \<open>
  Streamlit runs the script from top to bottom with the current values of the widgets.
  A run reads these values, the uploaded files, what pylinac computes and the store.
  \<open>calc_map\<close> stands for loading the selected log and computing its gamma map,
  \<open>avg_gamma_pct\<close> for loading all logs and averaging; each returns a percentage or raises.
\<close>

datatype 'a raised = Raises | Returns 'a

record uploaded_file =
  file_name :: string
  write_ok :: bool

record pylinac =
  calc_map :: "string \<Rightarrow> gamma_args \<Rightarrow> rat raised"
  avg_gamma_pct :: "gamma_args \<Rightarrow> rat raised"

record session =
  treatment_option :: treatment_option
  norm_option :: norm_option
  threshold_percent :: rat
  uploaded_files :: "uploaded_file list"
  temp_dir :: string
  file_select :: string
  engine :: pylinac
  location_select :: string
  oct_gamma :: rat
  submit_button :: bool
  now :: string
  store :: store_env
  pandas_str :: "rat \<Rightarrow> string"

datatype event =
    Parameters_shown rat rat rat rat norm_option
  | Error_saving_upload string
  | Warning_no_files
  | Patient_id_shown string
  | Warning_no_patient_id
  | Arc_gamma_shown rat
  | Patient_gamma_shown rat
  | Error_analysis
  | Save_form_shown
  | Store_message store_message
  | Warning_cannot_submit
  | Info_upload

text \<open>
  What a run leaves: what it showed, in order; the category and the record it passed to
  \<^verbatim>\<open>append_to_excel\<close>, if it called it; the workbook that call wrote, if it did.
\<close>

record outcome =
  events :: "event list"
  appended :: "(string \<times> (string \<times> cell) list) option"
  written :: "workbook option"

text \<open>
  Lines 216 to 229: every file is written to the temporary directory; the first that
  cannot be written stops the script (\<open>Inl\<close>). \<^verbatim>\<open>file_name_for_id\<close> is the name of the
  first file.
\<close>

fun save_uploads ::
  "string \<Rightarrow> (string \<times> string) list \<Rightarrow> string option \<Rightarrow> uploaded_file list
     \<Rightarrow> string + (string \<times> string) list \<times> string option"
where
  "save_uploads dir file_paths file_name_for_id [] = Inr (file_paths, file_name_for_id)"
| "save_uploads dir file_paths file_name_for_id (f # fs) =
     (if write_ok f
      then save_uploads dir (dict_set file_paths (file_name f) (dir @ ''/'' @ file_name f))
             (case file_name_for_id of None \<Rightarrow> Some (file_name f) | Some n \<Rightarrow> Some n) fs
      else Inl (file_name f))"

text \<open>
  Lines 239 to 244. A name that is \<^verbatim>\<open>None\<close>, empty or shorter than 12 characters gives
  a warning and the identifier \<^verbatim>\<open>Unknown\<close>.
\<close>

definition extract_patient_id :: "string option \<Rightarrow> event list \<times> string" where
  "extract_patient_id file_name_for_id =
     (case file_name_for_id of
        None \<Rightarrow> ([Warning_no_patient_id], ''Unknown'')
      | Some n \<Rightarrow>
          if n \<noteq> [] \<and> 12 \<le> length n
          then ([Patient_id_shown (take 12 n)], take 12 n)
          else ([Warning_no_patient_id], ''Unknown''))"

text \<open>
  The \<^verbatim>\<open>try\<close> block of lines 237 to 266: what is shown, \<^verbatim>\<open>patient_id\<close> and
  \<^verbatim>\<open>all_gamma\<close> (\<open>None\<close> after any exception).
\<close>

definition analysis :: "session \<Rightarrow> string option \<Rightarrow> event list \<times> string \<times> rat option" where
  "analysis s file_name_for_id =
     (let (shown, patient_id) = extract_patient_id file_name_for_id;
          args = gamma_call (treatment_option s) (norm_option s) (threshold_percent s)
      in case calc_map (engine s) (file_select s) args of
           Raises \<Rightarrow> (shown @ [Error_analysis], patient_id, None)
         | Returns arc \<Rightarrow>
             (case avg_gamma_pct (engine s) args of
                Raises \<Rightarrow> (shown @ [Arc_gamma_shown arc, Error_analysis], patient_id, None)
              | Returns all_gamma \<Rightarrow>
                  (shown @ [Arc_gamma_shown arc, Patient_gamma_shown all_gamma],
                   patient_id, Some all_gamma)))"

text \<open>Lines 279 to 287.\<close>

definition data_to_save :: "session \<Rightarrow> string \<Rightarrow> rat \<Rightarrow> (string \<times> cell) list" where
  "data_to_save s patient_id all_gamma =
     [(''Timestamp'', Str (now s)),
      (''Patient ID'', Str patient_id),
      (''Location'', Str (location_select s)),
      (''Threshold (%)'', Num (float_mul (thd (threshold_percent s)) 100)),
      (''Gamma (%)'', Num (round2 all_gamma)),
      (''Normalization'', Str (norm_label (norm_option s))),
      (''Gamma Octavius 4D (%)'', Num (oct_gamma s))]"

text \<open>Lines 269 to 292: the saving widgets, drawn when \<^verbatim>\<open>all_gamma\<close> is not \<^verbatim>\<open>None\<close>.\<close>

definition save_results :: "session \<Rightarrow> event list \<Rightarrow> string \<Rightarrow> rat \<Rightarrow> outcome" where
  "save_results s shown patient_id all_gamma =
     (if submit_button s then
        (if patient_id \<noteq> [] \<and> location_select s \<noteq> [] then
           (let data = data_to_save s patient_id all_gamma;
                target = sheet_name (parameters (treatment_option s));
                (messages, wb) =
                  append_to_excel (pandas_str s) (store s) target data (Some col_widths)
            in \<lparr>events = shown @ [Save_form_shown] @ map Store_message messages,
                appended = Some (target, data), written = wb\<rparr>)
         else \<lparr>events = shown @ [Save_form_shown, Warning_cannot_submit],
               appended = None, written = None\<rparr>)
      else \<lparr>events = shown @ [Save_form_shown], appended = None, written = None\<rparr>)"

definition run :: "session \<Rightarrow> outcome" where
  "run s =
     (let p = parameters (treatment_option s);
          shown = [Parameters_shown (dta p) (dd p) (float_mul (thd (threshold_percent s)) 100)
                     (res p) (norm_option s)]
      in if uploaded_files s \<noteq> [] then
           (case save_uploads (temp_dir s) [] None (uploaded_files s) of
              Inl n \<Rightarrow> \<lparr>events = shown @ [Error_saving_upload n], appended = None, written = None\<rparr>
            | Inr (file_paths, file_name_for_id) \<Rightarrow>
                if file_paths = []
                then \<lparr>events = shown @ [Warning_no_files], appended = None, written = None\<rparr>
                else (case analysis s file_name_for_id of
                        (shown', patient_id, None) \<Rightarrow>
                          \<lparr>events = shown @ shown', appended = None, written = None\<rparr>
                      | (shown', patient_id, Some all_gamma) \<Rightarrow>
                          save_results s (shown @ shown') patient_id all_gamma))
         else \<lparr>events = shown @ [Info_upload], appended = None, written = None\<rparr>)"

text \<open>The arguments a run passes to pylinac, and a run whose analysis raises.\<close>

definition session_args :: "session \<Rightarrow> gamma_args" where
  "session_args s = gamma_call (treatment_option s) (norm_option s) (threshold_percent s)"

definition analysis_failed :: "session \<Rightarrow> bool" where
  "analysis_failed s =
     (calc_map (engine s) (file_select s) (session_args s) = Raises \<or>
      avg_gamma_pct (engine s) (session_args s) = Raises)"

subsection \<open>Example sessions\<close>

definition sample_engine :: pylinac where
  "sample_engine =
     \<lparr>calc_map = (\<lambda>f a. Returns (fl (9912 / 100))),
      avg_gamma_pct = (\<lambda>a. Returns (fl (99871 / 1000)))\<rparr>"

definition sample_session :: session where
  "sample_session =
     \<lparr>treatment_option = VMAT, norm_option = Global, threshold_percent = 10,
      uploaded_files = [\<lparr>file_name = ''ABCDEFGHIJKL_arc1.bin'', write_ok = True\<rparr>,
                        \<lparr>file_name = ''ABCDEFGHIJKL_arc2.bin'', write_ok = True\<rparr>],
      temp_dir = ''/tmp/tmpab12'', file_select = ''ABCDEFGHIJKL_arc1.bin'',
      engine = sample_engine, location_select = ''Recto'', oct_gamma = 99,
      submit_button = True, now = ''2024-05-06 10:11:12'', store = absent_store,
      pandas_str = (\<lambda>x. [])\<rparr>"

text \<open>The same session with one file whose name has nine characters.\<close>

definition short_session :: session where
  "short_session =
     sample_session
       \<lparr>uploaded_files := [\<lparr>file_name = ''short.bin'', write_ok = True\<rparr>],
        file_select := ''short.bin''\<rparr>"

text \<open>The same session when averaging over all logs raises.\<close>

definition failed_session :: session where
  "failed_session =
     sample_session
       \<lparr>engine := \<lparr>calc_map = (\<lambda>f a. Returns (fl (9912 / 100))),
                    avg_gamma_pct = (\<lambda>a. Raises)\<rparr>\<rparr>"

text \<open>The same session with the threshold set to 7 per cent.\<close>

definition seven_session :: session where
  "seven_session = sample_session \<lparr>threshold_percent := 7\<rparr>"

section \<open>Properties of the store\<close>

subsection \<open>Frames and dictionaries\<close>

lemma columns_reindex: "columns (reindex df cols) = cols"
  by (simp add: reindex_def)

lemma rows_reindex:
  "rows (reindex df cols) = map (\<lambda>r. map (row_get (columns df) r) cols) (rows df)"
  by (simp add: reindex_def)

lemma length_rows_reindex: "length (rows (reindex df cols)) = length (rows df)"
  by (simp add: reindex_def)

lemma row_length_reindex: "r \<in> set (rows (reindex df cols)) \<Longrightarrow> length r = length cols"
  by (auto simp: reindex_def)

lemma row_get_missing: "c \<notin> set cols \<Longrightarrow> row_get cols r c = NaN"
proof -
  assume "c \<notin> set cols"
  then have "c \<notin> fst ` set (zip cols r)"
    by (auto dest: set_zip_leftD)
  then have "map_of (zip cols r) c = None"
    by (simp add: map_of_eq_None_iff)
  then show ?thesis by (simp add: row_get_def)
qed

lemma row_get_nth:
  "distinct cols \<Longrightarrow> length r = length cols \<Longrightarrow> j < length cols \<Longrightarrow> row_get cols r (cols ! j) = r ! j"
proof -
  assume d: "distinct cols" and l: "length r = length cols" and j: "j < length cols"
  have "map_of (zip cols r) (cols ! j) = Some (r ! j)"
    using d l j by (simp add: map_of_zip_nth)
  then show ?thesis by (simp add: row_get_def)
qed

lemma map_row_get_id:
  assumes "distinct cols" "length r = length cols"
  shows "map (row_get cols r) cols = r"
  using assms by (intro nth_equalityI) (simp_all add: row_get_nth)

lemma reindex_same:
  assumes "columns df = cols" "distinct cols" "\<forall>r\<in>set (rows df). length r = length cols"
  shows "reindex df cols = df"
proof -
  have "map (\<lambda>r. map (row_get cols r) cols) (rows df) = rows df"
    using assms(2,3) by (induction "rows df") (auto simp: map_row_get_id map_idI)
  then show ?thesis using assms(1) by (simp add: reindex_def)
qed

lemma reindex_reindex:
  "distinct cols \<Longrightarrow> reindex (reindex df cols) cols = reindex df cols"
  by (rule reindex_same) (auto simp: reindex_def)

lemma pd_concat_same_columns:
  assumes "columns a = cols" "columns b = cols"
  shows "pd_concat a b = \<lparr>columns = cols, rows = rows (reindex a cols) @ rows (reindex b cols)\<rparr>"
  using assms by (simp add: pd_concat_def Let_def)

lemma distinct_standard_columns: "distinct standard_columns"
  by (simp add: standard_columns_def)

lemma length_standard_columns: "length standard_columns = 7"
  by (simp add: standard_columns_def)

lemma pd_concat_reindexed:
  "pd_concat (reindex a standard_columns) (reindex b standard_columns) =
     \<lparr>columns = standard_columns,
      rows = rows (reindex a standard_columns) @ rows (reindex b standard_columns)\<rparr>"
  by (simp add: pd_concat_same_columns [where cols = standard_columns] columns_reindex
        reindex_reindex distinct_standard_columns)

lemma map_of_dict_set: "map_of (dict_set d k v) = (map_of d)(k \<mapsto> v)"
  by (induction d) (auto simp: fun_eq_iff)

lemma keys_dict_set: "fst ` set (dict_set d k v) = insert k (fst ` set d)"
  using arg_cong [OF map_of_dict_set, of dom d k v] by (simp add: dom_map_of_conv_image_fst)

lemma distinct_dict_set: "distinct (map fst d) \<Longrightarrow> distinct (map fst (dict_set d k v))"
  by (induction d) (auto simp: keys_dict_set)

lemma distinct_read_sheets:
  "read_sheets acc sheets = Some all_sheets \<Longrightarrow> distinct (map fst acc) \<Longrightarrow> distinct (map fst all_sheets)"
  by (induction acc sheets rule: read_sheets.induct) (auto simp: distinct_dict_set)

lemma rows_DataFrame_reindex:
  "rows (reindex (DataFrame data_dict) standard_columns) = [record_row data_dict]"
  by (simp add: reindex_def DataFrame_def record_row_def row_get_def zip_map_fst_snd)

lemma frame_write_sheet: "frame (write_sheet num_str cw df) = reindex df standard_columns"
  by (simp add: write_sheet_def Let_def)

subsection \<open>The structure of a call\<close>

lemma append_ok:
  assumes "write_file env = WriteOk"
    and "load_sheets env sn (reindex (DataFrame rec) standard_columns) = (all_sheets, upd, warns)"
  shows "append_to_excel ns env sn rec cw =
           (warns @ [Success_saved sn],
            Some (map (\<lambda>(sheet, df). (sheet, write_sheet ns cw df)) (dict_set all_sheets sn upd)))"
  using assms by (simp add: append_to_excel_def Let_def)

lemma append_Some_WriteOk:
  "snd (append_to_excel ns env sn rec cw) = Some wb \<Longrightarrow> write_file env = WriteOk"
  by (auto simp: append_to_excel_def Let_def split: prod.splits write_result.splits)

lemma load_sheets_Some:
  "read_store env = Some all_sheets \<Longrightarrow>
   load_sheets env sn new =
     (all_sheets,
      (case map_of all_sheets sn of
         Some existing_df \<Rightarrow> pd_concat (reindex existing_df standard_columns) new
       | None \<Rightarrow> new),
      [])"
  by (auto simp: read_store_def load_sheets_def split: if_splits open_result.splits option.splits)

lemma load_sheets_None:
  "read_store env = None \<Longrightarrow>
   \<exists>w. is_warning w \<and> load_sheets env sn new = ([], new, [w])"
  by (auto simp: read_store_def load_sheets_def split: if_splits open_result.splits option.splits)

lemma distinct_read_store: "read_store env = Some all_sheets \<Longrightarrow> distinct (map fst all_sheets)"
  by (auto simp: read_store_def dest: distinct_read_sheets split: if_splits open_result.splits)

lemma rows_updated:
  "rows (reindex (pd_concat (reindex old standard_columns) (reindex new standard_columns))
           standard_columns) =
     rows (reindex old standard_columns) @ rows (reindex new standard_columns)"
proof -
  let ?u = "pd_concat (reindex old standard_columns) (reindex new standard_columns)"
  have "reindex ?u standard_columns = ?u"
    by (rule reindex_same)
      (auto simp: pd_concat_reindexed distinct_standard_columns dest: row_length_reindex)
  then show ?thesis by (simp add: pd_concat_reindexed)
qed

lemma written_sheet:
  assumes w: "snd (append_to_excel ns env sn rec cw) = Some wb" and m: "(sheet, ws) \<in> set wb"
  obtains all_sheets upd warns df where
    "load_sheets env sn (reindex (DataFrame rec) standard_columns) = (all_sheets, upd, warns)"
    "(sheet, df) \<in> set (dict_set all_sheets sn upd)"
    "ws = write_sheet ns cw df"
proof -
  obtain all_sheets upd warns where
    l: "load_sheets env sn (reindex (DataFrame rec) standard_columns) = (all_sheets, upd, warns)"
    by (cases "load_sheets env sn (reindex (DataFrame rec) standard_columns)")
  have "wb = map (\<lambda>(sheet, df). (sheet, write_sheet ns cw df)) (dict_set all_sheets sn upd)"
    using w append_ok [OF append_Some_WriteOk [OF w] l, of ns cw] by simp
  with m obtain df where "(sheet, df) \<in> set (dict_set all_sheets sn upd)" "ws = write_sheet ns cw df"
    by auto
  with l show thesis by (rule that)
qed


lemmas store_eval =
  append_to_excel_def load_sheets_def reindex_def DataFrame_def row_get_def pd_concat_def
  standard_columns_def write_sheet_def predefined_widths_def auto_widths_def series_def
  Let_def enumerate_eq_zip

subsection \<open>C4: every written category has the seven fixed columns\<close>

text \<open>
  Claim C4. After a call that wrote the store, every sheet of the written workbook has
  exactly the labels of \<open>standard_columns\<close>, in that order, and every row has seven cells.
  For a sheet that was in the store before, the rows it had are written over these labels:
  a column with another label is gone, and a standard label the sheet did not have holds
  NaN in every one of these rows.
\<close>

theorem store_schema:
  assumes w: "snd (append_to_excel ns env sn rec cw) = Some wb" and m: "(sheet, ws) \<in> set wb"
  shows "columns (frame ws) = standard_columns \<and>
         (\<forall>r\<in>set (rows (frame ws)). length r = 7) \<and>
         (\<forall>old. category env sheet = Some old \<longrightarrow>
            take (length (rows old)) (rows (frame ws)) =
              map (\<lambda>r. map (\<lambda>c. if c \<in> set (columns old) then row_get (columns old) r c else NaN)
                            standard_columns)
                  (rows old))"
proof (intro conjI allI impI)
  from w m obtain all_sheets upd warns df where
    l: "load_sheets env sn (reindex (DataFrame rec) standard_columns) = (all_sheets, upd, warns)" and
    d: "(sheet, df) \<in> set (dict_set all_sheets sn upd)" and
    ws: "ws = write_sheet ns cw df"
    by (rule written_sheet)
  have f: "frame ws = reindex df standard_columns"
    by (simp add: ws frame_write_sheet)
  show "columns (frame ws) = standard_columns"
    by (simp add: f columns_reindex)
  show "\<forall>r\<in>set (rows (frame ws)). length r = 7"
    using row_length_reindex [of _ df standard_columns]
    by (simp add: f length_standard_columns)
  fix old
  assume c: "category env sheet = Some old"
  then obtain all' where r: "read_store env = Some all'" and o: "map_of all' sheet = Some old"
    by (auto simp: category_def split: option.splits)
  have a: "all_sheets = all'" and
    u: "upd = (case map_of all' sn of
                 Some existing_df \<Rightarrow>
                   pd_concat (reindex existing_df standard_columns)
                     (reindex (DataFrame rec) standard_columns)
               | None \<Rightarrow> reindex (DataFrame rec) standard_columns)"
    using l load_sheets_Some [OF r, of sn "reindex (DataFrame rec) standard_columns"] by auto
  have "distinct (map fst (dict_set all' sn upd))"
    by (rule distinct_dict_set) (rule distinct_read_store [OF r])
  with d have md: "map_of (dict_set all' sn upd) sheet = Some df"
    by (simp add: a)
  have fill: "map (\<lambda>r. map (\<lambda>c. if c \<in> set (columns old) then row_get (columns old) r c else NaN)
                            standard_columns) (rows old) = rows (reindex old standard_columns)"
    by (simp add: rows_reindex row_get_missing cong: if_cong)
  have "take (length (rows old)) (rows (frame ws)) = rows (reindex old standard_columns)"
  proof (cases "sheet = sn")
    case True
    with md have "df = upd" by (simp add: map_of_dict_set)
    with u o True have "df = pd_concat (reindex old standard_columns)
                                (reindex (DataFrame rec) standard_columns)"
      by simp
    then show ?thesis
      by (simp add: f rows_updated length_rows_reindex)
  next
    case False
    with md o have "df = old" by (simp add: map_of_dict_set)
    then show ?thesis
      by (simp add: f length_rows_reindex)
  qed
  with fill show "take (length (rows old)) (rows (frame ws)) =
      map (\<lambda>r. map (\<lambda>c. if c \<in> set (columns old) then row_get (columns old) r c else NaN)
                    standard_columns) (rows old)"
    by simp
qed

text \<open>
  The theorem at a store whose sheet \<^verbatim>\<open>VMAT\<close> has the columns \<^verbatim>\<open>Patient ID\<close> and
  \<^verbatim>\<open>Comment\<close>: after a record is appended to \<^verbatim>\<open>SBRT-SRS\<close>, the sheet \<^verbatim>\<open>VMAT\<close> is
  written with the seven labels, the comment is dropped and six cells are NaN.
\<close>

theorem store_schema_witness:
  "snd (append_to_excel (\<lambda>x. []) legacy_store ''SBRT-SRS'' sample_record (Some [])) =
     Some [(''VMAT'', \<lparr>frame = \<lparr>columns = standard_columns,
                                 rows = [[NaN, Str ''P1'', NaN, NaN, NaN, NaN, NaN]]\<rparr>,
                       set_column = []\<rparr>),
           (''SBRT-SRS'', \<lparr>frame = \<lparr>columns = standard_columns, rows = [record_row sample_record]\<rparr>,
                       set_column = []\<rparr>)] \<and>
   category legacy_store ''VMAT'' = Some legacy_frame \<and>
   columns (reindex legacy_frame standard_columns) = standard_columns \<and>
   take 1 [[NaN, Str ''P1'', NaN, NaN, NaN, NaN, NaN]] =
     map (\<lambda>r. map (\<lambda>c. if c \<in> set [''Patient ID'', ''Comment'']
                         then row_get [''Patient ID'', ''Comment''] r c else NaN)
                   standard_columns)
         [[Str ''P1'', Str ''checked'']]"
proof -
  let ?ws = "\<lparr>frame = \<lparr>columns = standard_columns,
                          rows = [[NaN, Str ''P1'', NaN, NaN, NaN, NaN, NaN]]\<rparr>,
              set_column = []\<rparr>"
  let ?wb = "[(''VMAT'', ?ws),
              (''SBRT-SRS'', \<lparr>frame = \<lparr>columns = standard_columns, rows = [record_row sample_record]\<rparr>,
                       set_column = []\<rparr>)]"
  have h1: "snd (append_to_excel (\<lambda>x. []) legacy_store ''SBRT-SRS'' sample_record (Some [])) = Some ?wb"
    by (simp add: store_eval legacy_store_def legacy_frame_def sample_record_def record_row_def)
  have h2: "(''VMAT'', ?ws) \<in> set ?wb"
    by simp
  have h3: "category legacy_store ''VMAT'' = Some legacy_frame"
    by (simp add: category_def read_store_def legacy_store_def)
  show ?thesis
    using store_schema [OF h1 h2] h1 h3
    by (simp add: legacy_frame_def columns_reindex)
qed

lemma written_rows_append:
  assumes ok: "write_file env = WriteOk" and r: "read_store env = Some all_sheets"
  shows "written_rows (append_to_excel ns env sn rec cw) sn =
           Some (prior_rows env sn @ [record_row rec])"
proof -
  let ?new = "reindex (DataFrame rec) standard_columns"
  let ?upd = "case map_of all_sheets sn of
                Some existing_df \<Rightarrow> pd_concat (reindex existing_df standard_columns) ?new
              | None \<Rightarrow> ?new"
  have a: "append_to_excel ns env sn rec cw =
             ([] @ [Success_saved sn],
              Some (map (\<lambda>(sheet, df). (sheet, write_sheet ns cw df)) (dict_set all_sheets sn ?upd)))"
    by (rule append_ok [OF ok load_sheets_Some [OF r]])
  have m: "map_of (map (\<lambda>(sheet, df). (sheet, write_sheet ns cw df)) (dict_set all_sheets sn ?upd)) sn
             = Some (write_sheet ns cw ?upd)"
    by (simp add: map_of_map map_of_dict_set)
  have "rows (reindex ?upd standard_columns) = prior_rows env sn @ [record_row rec]"
  proof (cases "map_of all_sheets sn")
    case None
    then show ?thesis
      by (simp add: prior_rows_def category_def r reindex_reindex distinct_standard_columns
            rows_DataFrame_reindex)
  next
    case (Some old)
    then show ?thesis
      by (simp add: prior_rows_def category_def r rows_updated rows_DataFrame_reindex)
  qed
  then show ?thesis
    by (simp add: written_rows_def a m frame_write_sheet)
qed

subsection \<open>C3: the record goes last, the rows before it stay\<close>

text \<open>
  Claim C3 says that every row the category had is written back unchanged. The function
  first brings the category to the standard labels (line 88, \<^verbatim>\<open>Ensure columns match before
  concatenating\<close>), so a row of a category with other labels is written changed. Here the
  category \<^verbatim>\<open>VMAT\<close> has the columns \<^verbatim>\<open>Patient ID\<close> and \<^verbatim>\<open>Comment\<close> and one row; after
  the call its row has lost the comment and has NaN in six places, and the row it had is
  not among the rows written.
\<close>

theorem append_keeps_rows_counterexample:
  "write_file legacy_store = WriteOk \<and> readable legacy_store \<and>
   category legacy_store ''VMAT'' =
     Some \<lparr>columns = [''Patient ID'', ''Comment''], rows = [[Str ''P1'', Str ''checked'']]\<rparr> \<and>
   written_rows (append_to_excel (\<lambda>x. []) legacy_store ''VMAT'' sample_record (Some [])) ''VMAT'' =
     Some [[NaN, Str ''P1'', NaN, NaN, NaN, NaN, NaN], record_row sample_record] \<and>
   [Str ''P1'', Str ''checked''] \<notin>
     set (the (written_rows
                 (append_to_excel (\<lambda>x. []) legacy_store ''VMAT'' sample_record (Some [])) ''VMAT''))"
  by code_simp

text \<open>
  Claim C3, amended. When the store is absent or can be read and the writing goes through,
  the target category is written with the rows it had, in their order and as many (also
  when the record equals one of them), each taken over the seven standard labels, followed
  by the new record as the last row. Taken over the standard labels means: the cell under
  a standard label the category has is kept, a cell under another label is left out, and
  a standard label the category lacks gives NaN. A category that has exactly the standard
  labels, as every category this function has written, keeps its rows unchanged. With no
  file, the workbook is written with the target category alone and the one new row. When
  the next call reads that category back as one row in the standard layout, it writes this
  row followed by its own record: two rows in the order of the calls. What writing and
  reading the Excel file make of the cells of a row is not the function's and is not
  stated.
\<close>

theorem append_keeps_rows:
  assumes ok: "write_file env = WriteOk" and rd: "readable env"
  shows "written_rows (append_to_excel ns env sn rec cw) sn =
           Some (prior_rows env sn @ [record_row rec]) \<and>
         (category env sn = None \<longrightarrow> prior_rows env sn = []) \<and>
         (\<forall>old. category env sn = Some old \<longrightarrow>
            prior_rows env sn =
              map (\<lambda>r. map (\<lambda>c. if c \<in> set (columns old) then row_get (columns old) r c else NaN)
                            standard_columns)
                  (rows old)) \<and>
         (\<forall>old. category env sn = Some old \<and> columns old = standard_columns \<and>
                (\<forall>r\<in>set (rows old). length r = 7) \<longrightarrow> prior_rows env sn = rows old) \<and>
         (\<not> file_exists env \<longrightarrow>
            map fst (the (snd (append_to_excel ns env sn rec cw))) = [sn] \<and>
            written_rows (append_to_excel ns env sn rec cw) sn = Some [record_row rec]) \<and>
         (\<forall>env' r1 ns' rec' cw'.
            write_file env' = WriteOk \<and> length r1 = 7 \<and>
            category env' sn = Some \<lparr>columns = standard_columns, rows = [r1]\<rparr> \<longrightarrow>
            written_rows (append_to_excel ns' env' sn rec' cw') sn = Some [r1, record_row rec'])"
proof -
  from rd obtain all_sheets where r: "read_store env = Some all_sheets"
    by (auto simp: readable_def)
  have 1: "written_rows (append_to_excel ns env sn rec cw) sn =
             Some (prior_rows env sn @ [record_row rec])"
    by (rule written_rows_append [OF ok r])
  have 2: "prior_rows env sn = []" if "category env sn = None"
    using that by (simp add: prior_rows_def)
  have 3: "prior_rows env sn =
             map (\<lambda>r. map (\<lambda>c. if c \<in> set (columns old) then row_get (columns old) r c else NaN)
                           standard_columns)
                 (rows old)"
    if "category env sn = Some old" for old
    using that by (simp add: prior_rows_def rows_reindex row_get_missing cong: if_cong)
  have std: "prior_rows e sn = rows old"
    if "category e sn = Some old \<and> columns old = standard_columns \<and>
        (\<forall>r\<in>set (rows old). length r = 7)" for e old
    using that reindex_same [of old standard_columns]
    by (simp add: prior_rows_def distinct_standard_columns length_standard_columns)
  have 5: "map fst (the (snd (append_to_excel ns env sn rec cw))) = [sn] \<and>
           written_rows (append_to_excel ns env sn rec cw) sn = Some [record_row rec]"
    if a: "\<not> file_exists env"
  proof -
    from a have e: "read_store env = Some []"
      by (simp add: read_store_def)
    have "append_to_excel ns env sn rec cw =
            ([] @ [Success_saved sn],
             Some (map (\<lambda>(sheet, df). (sheet, write_sheet ns cw df))
                     (dict_set [] sn
                        (case map_of [] sn of
                           Some existing_df \<Rightarrow>
                             pd_concat (reindex existing_df standard_columns)
                               (reindex (DataFrame rec) standard_columns)
                         | None \<Rightarrow> reindex (DataFrame rec) standard_columns))))"
      by (rule append_ok [OF ok load_sheets_Some [OF e]])
    then have "map fst (the (snd (append_to_excel ns env sn rec cw))) = [sn]"
      by simp
    moreover from a have "prior_rows env sn = []"
      by (simp add: prior_rows_def category_def read_store_def)
    ultimately show ?thesis
      using 1 by simp
  qed
  have 6: "written_rows (append_to_excel ns' env' sn rec' cw') sn = Some [r1, record_row rec']"
    if h: "write_file env' = WriteOk \<and> length r1 = 7 \<and>
           category env' sn = Some \<lparr>columns = standard_columns, rows = [r1]\<rparr>"
    for env' r1 ns' rec' cw'
  proof -
    from h obtain all' where r': "read_store env' = Some all'"
      by (auto simp: category_def split: option.splits)
    from h have "prior_rows env' sn = [r1]"
      using std [of env' "\<lparr>columns = standard_columns, rows = [r1]\<rparr>"] by simp
    with written_rows_append [OF _ r', of ns' sn rec' cw'] h show ?thesis
      by simp
  qed
  from 1 2 3 std [of env] 5 6 show ?thesis
    by blast
qed

text \<open>
  The amended claim at an absent store (the category alone, one row), at a store that
  reads the category back as that row (two rows in the order of the calls) and at a store
  whose category has other labels.
\<close>

theorem append_keeps_rows_witness:
  "map fst (the (snd (append_to_excel (\<lambda>x. []) absent_store ''VMAT'' sample_record (Some [])))) =
     [''VMAT''] \<and>
   written_rows (append_to_excel (\<lambda>x. []) absent_store ''VMAT'' sample_record (Some [])) ''VMAT'' =
     Some [record_row sample_record] \<and>
   written_rows (append_to_excel (\<lambda>x. []) reread_store ''VMAT'' second_record (Some [])) ''VMAT'' =
     Some [record_row sample_record, record_row second_record] \<and>
   written_rows (append_to_excel (\<lambda>x. []) legacy_store ''VMAT'' sample_record (Some [])) ''VMAT'' =
     Some [[NaN, Str ''P1'', NaN, NaN, NaN, NaN, NaN], record_row sample_record]"
proof -
  have a1: "write_file absent_store = WriteOk" and a2: "readable absent_store" and
    a3: "\<not> file_exists absent_store"
    by (simp_all add: absent_store_def readable_def read_store_def)
  have r1: "write_file reread_store = WriteOk" and r2: "length (record_row sample_record) = 7" and
    r3: "category reread_store ''VMAT'' =
           Some \<lparr>columns = standard_columns, rows = [record_row sample_record]\<rparr>"
    by (simp_all add: reread_store_def category_def read_store_def record_row_def
          standard_columns_def)
  have l1: "write_file legacy_store = WriteOk" and l2: "readable legacy_store" and
    l3: "category legacy_store ''VMAT'' = Some legacy_frame"
    by (simp_all add: legacy_store_def readable_def category_def read_store_def)
  note a = append_keeps_rows [OF a1 a2, of "\<lambda>x. []" "''VMAT''" sample_record "Some []"]
  note l = append_keeps_rows [OF l1 l2, of "\<lambda>x. []" "''VMAT''" sample_record "Some []"]
  from a a3 have
    "map fst (the (snd (append_to_excel (\<lambda>x. []) absent_store ''VMAT'' sample_record (Some [])))) =
       [''VMAT''] \<and>
     written_rows (append_to_excel (\<lambda>x. []) absent_store ''VMAT'' sample_record (Some [])) ''VMAT'' =
       Some [record_row sample_record]"
    by blast
  moreover from a r1 r2 r3 have
    "written_rows (append_to_excel (\<lambda>x. []) reread_store ''VMAT'' second_record (Some [])) ''VMAT'' =
       Some [record_row sample_record, record_row second_record]"
    by blast
  moreover from l l3 have
    "prior_rows legacy_store ''VMAT'' =
       map (\<lambda>r. map (\<lambda>c. if c \<in> set (columns legacy_frame)
                            then row_get (columns legacy_frame) r c else NaN)
                     standard_columns)
           (rows legacy_frame)"
    by blast
  then have "prior_rows legacy_store ''VMAT'' = [[NaN, Str ''P1'', NaN, NaN, NaN, NaN, NaN]]"
    by (simp add: legacy_frame_def row_get_def standard_columns_def)
  with l have
    "written_rows (append_to_excel (\<lambda>x. []) legacy_store ''VMAT'' sample_record (Some [])) ''VMAT'' =
       Some [[NaN, Str ''P1'', NaN, NaN, NaN, NaN, NaN], record_row sample_record]"
    by simp
  ultimately show ?thesis
    by simp
qed

subsection \<open>C1: a store that cannot be read\<close>

text \<open>
  Claim C1 says that a store that cannot be read costs only the target category its rows,
  and that the rows of every other category are written back. The function does not do
  this: \<^verbatim>\<open>all_sheets\<close> is assigned only when every sheet has been read, so after a failed
  read it is the empty dictionary and the workbook is written with the target sheet alone.
  Here the sheet \<^verbatim>\<open>VMAT\<close> reads and has one row, the sheet \<^verbatim>\<open>SBRT-SRS\<close> does not
  read; after the call the written workbook has no sheet \<^verbatim>\<open>VMAT\<close>.
\<close>

theorem unreadable_store_keeps_others_counterexample:
  "open_file damaged_store =
     Opened [(''VMAT'', Frame \<lparr>columns = standard_columns, rows = [record_row sample_record]\<rparr>),
             (''SBRT-SRS'', SheetError)] \<and>
   \<not> readable damaged_store \<and>
   fst (append_to_excel (\<lambda>x. []) damaged_store ''SBRT-SRS'' second_record (Some [])) =
     [Warning_could_not_read, Success_saved ''SBRT-SRS''] \<and>
   written_rows (append_to_excel (\<lambda>x. []) damaged_store ''SBRT-SRS'' second_record (Some [])) ''SBRT-SRS'' =
     Some [record_row second_record] \<and>
   written_rows (append_to_excel (\<lambda>x. []) damaged_store ''SBRT-SRS'' second_record (Some [])) ''VMAT'' =
     None"
  by (simp add: store_eval damaged_store_def readable_def read_store_def written_rows_def
        second_record_def record_row_def)

text \<open>
  Claim C1, amended. When the file exists, reading it raises and the writing goes through,
  the call succeeds: it shows one warning and then the success message, and it writes a
  workbook that holds the target category only, with the seven standard columns and the
  new record as its one row. No other category is written.
\<close>

theorem unreadable_store_starts_fresh:
  assumes ok: "write_file env = WriteOk" and ex: "file_exists env" and un: "\<not> readable env"
  shows "\<exists>w ws. is_warning w \<and>
           append_to_excel ns env sn rec cw = ([w, Success_saved sn], Some [(sn, ws)]) \<and>
           columns (frame ws) = standard_columns \<and>
           rows (frame ws) = [record_row rec]"
proof -
  let ?new = "reindex (DataFrame rec) standard_columns"
  from un have "read_store env = None"
    by (simp add: readable_def)
  then obtain w where w: "is_warning w" and l: "load_sheets env sn ?new = ([], ?new, [w])"
    using load_sheets_None by blast
  have "append_to_excel ns env sn rec cw =
          ([w] @ [Success_saved sn],
           Some (map (\<lambda>(sheet, df). (sheet, write_sheet ns cw df)) (dict_set [] sn ?new)))"
    by (rule append_ok [OF ok l])
  then have "append_to_excel ns env sn rec cw =
          ([w, Success_saved sn], Some [(sn, write_sheet ns cw ?new)])"
    by simp
  moreover have "rows (frame (write_sheet ns cw ?new)) = [record_row rec]"
    by (simp add: frame_write_sheet reindex_reindex distinct_standard_columns rows_DataFrame_reindex)
  moreover have "columns (frame (write_sheet ns cw ?new)) = standard_columns"
    by (simp add: frame_write_sheet columns_reindex)
  ultimately show ?thesis
    using w by blast
qed

text \<open>The amended claim at the workbook above.\<close>

theorem unreadable_store_starts_fresh_witness:
  "write_file damaged_store = WriteOk \<and> file_exists damaged_store \<and> \<not> readable damaged_store \<and>
   append_to_excel (\<lambda>x. []) damaged_store ''SBRT-SRS'' second_record (Some []) =
     ([Warning_could_not_read, Success_saved ''SBRT-SRS''],
      Some [(''SBRT-SRS'', \<lparr>frame = \<lparr>columns = standard_columns, rows = [record_row second_record]\<rparr>,
                          set_column = []\<rparr>)])"
proof -
  have h1: "write_file damaged_store = WriteOk" and h2: "file_exists damaged_store" and
    h3: "\<not> readable damaged_store"
    by (simp_all add: damaged_store_def readable_def read_store_def)
  from unreadable_store_starts_fresh [OF h1 h2 h3, of "\<lambda>x. []" "''SBRT-SRS''" second_record "Some []"]
  obtain w ws where
    a: "append_to_excel (\<lambda>x. []) damaged_store ''SBRT-SRS'' second_record (Some []) =
          ([w, Success_saved ''SBRT-SRS''], Some [(''SBRT-SRS'', ws)])" and
    c: "columns (frame ws) = standard_columns" and r: "rows (frame ws) = [record_row second_record]"
    by blast
  have e: "append_to_excel (\<lambda>x. []) damaged_store ''SBRT-SRS'' second_record (Some []) =
     ([Warning_could_not_read, Success_saved ''SBRT-SRS''],
      Some [(''SBRT-SRS'', \<lparr>frame = \<lparr>columns = standard_columns, rows = [record_row second_record]\<rparr>,
                          set_column = []\<rparr>)])"
    by (simp add: store_eval damaged_store_def second_record_def record_row_def)
  from a c r e h1 h2 h3 show ?thesis by simp
qed

subsection \<open>C10: column widths\<close>

text \<open>
  With a dictionary of widths, a column gets the width the dictionary gives its label, and
  no width when the dictionary has none for it. Without a dictionary, each of the seven
  columns gets \<open>max_len\<close> of its cells and its label; for a sheet with at least one row
  this is the larger of the label's length and the longest cell written as a string, plus
  one.
\<close>

lemma map_of_rev_calls:
  "map_of (rev (concat (map (\<lambda>(idx, c). case g c of Some w \<Rightarrow> [(idx, f w)] | None \<Rightarrow> [])
                            (enumerate n xs)))) j =
     (if n \<le> j \<and> j < n + length xs then map_option f (g (xs ! (j - n))) else None)"
proof (induction xs arbitrary: n)
  case Nil
  then show ?case by auto
next
  case (Cons x xs)
  show ?case
    by (auto simp: Cons.IH map_add_def nth_Cons' split: option.splits)
qed

lemma column_width_predefined:
  "j < 7 \<Longrightarrow>
   column_width (write_sheet num_str (Some d) df) j =
     map_option Width (map_of d (standard_columns ! j))"
  using map_of_rev_calls [where g = "map_of d" and f = Width and n = 0 and xs = standard_columns and j = j]
  by (simp add: column_width_def write_sheet_def Let_def predefined_widths_def
        length_standard_columns)

lemma column_width_predefined_beyond:
  "7 \<le> j \<Longrightarrow> column_width (write_sheet num_str (Some d) df) j = None"
  using map_of_rev_calls [where g = "map_of d" and f = Width and n = 0 and xs = standard_columns and j = j]
  by (simp add: column_width_def write_sheet_def Let_def predefined_widths_def
        length_standard_columns)

lemma map_of_rev_enumerate:
  "map_of (rev (map (\<lambda>(idx, c). (idx, f c)) (enumerate n xs))) j =
     (if n \<le> j \<and> j < n + length xs then Some (f (xs ! (j - n))) else None)"
proof (induction xs arbitrary: n)
  case Nil
  then show ?case by auto
next
  case (Cons x xs)
  show ?case
    by (auto simp: Cons.IH map_add_def nth_Cons' split: option.splits)
qed

lemma series_reindex:
  "c \<in> set cols \<Longrightarrow> distinct cols \<Longrightarrow>
   series (reindex df cols) c = map (\<lambda>r. row_get (columns df) r c) (rows df)"
proof -
  assume c: "c \<in> set cols" and d: "distinct cols"
  then obtain j where j: "j < length cols" "cols ! j = c"
    by (auto simp: in_set_conv_nth)
  have "row_get cols (map (row_get (columns df) r) cols) c = row_get (columns df) r c" for r
    using row_get_nth [OF d, of "map (row_get (columns df) r) cols" j] j by simp
  then show ?thesis
    by (simp add: series_def reindex_def comp_def)
qed

lemma column_width_auto:
  "j < 7 \<Longrightarrow>
   column_width (write_sheet num_str None df) j =
     Some (max_len num_str (map (\<lambda>r. row_get (columns df) r (standard_columns ! j)) (rows df))
                   (standard_columns ! j))"
  using map_of_rev_enumerate
    [where f = "\<lambda>col. max_len num_str (series (reindex df standard_columns) col) col"
       and n = 0 and xs = standard_columns and j = j]
  by (simp add: column_width_def write_sheet_def Let_def auto_widths_def columns_reindex
        length_standard_columns series_reindex distinct_standard_columns)

lemma max_len_nonempty:
  "vs \<noteq> [] \<Longrightarrow>
   max_len num_str vs name =
     Width (max (Max ((\<lambda>v. length (astype_str num_str v)) ` set vs)) (length name) + 1)"
proof (cases vs)
  case Nil
  then show "vs \<noteq> [] \<Longrightarrow> ?thesis" by simp
next
  case (Cons v vs')
  have "fold max (map (\<lambda>x. length (astype_str num_str x)) vs') (length (astype_str num_str v)) =
        Max (set (map (\<lambda>x. length (astype_str num_str x)) (v # vs')))"
    using Max.set_eq_fold [of "length (astype_str num_str v)"
        "map (\<lambda>x. length (astype_str num_str x)) vs'"]
    by simp
  then show ?thesis by (simp add: Cons)
qed

text \<open>
  Claim C10 fails on a sheet without rows. The workbook has an empty sheet \<^verbatim>\<open>Notes\<close>;
  a record is appended to \<^verbatim>\<open>VMAT\<close> with no dictionary of widths. The sheet \<^verbatim>\<open>Notes\<close>
  is written with the seven labels and no row, and the width passed to
  \<^verbatim>\<open>set_column\<close> for its first column is NaN, where the claim's formula gives the
  length of \<^verbatim>\<open>Timestamp\<close> plus one. The sheet \<^verbatim>\<open>VMAT\<close> of the same workbook gets the
  width of the claim: its two timestamps have 19 characters.
\<close>

theorem auto_width_of_empty_sheet:
  "snd (append_to_excel (\<lambda>x. []) notes_store ''VMAT'' second_record None) =
     Some [(''Notes'', \<lparr>frame = \<lparr>columns = standard_columns, rows = []\<rparr>,
                        set_column = [(0, Width_nan), (1, Width_nan), (2, Width_nan), (3, Width_nan),
                                      (4, Width_nan), (5, Width_nan), (6, Width_nan)]\<rparr>),
           (''VMAT'', \<lparr>frame = \<lparr>columns = standard_columns,
                                  rows = [record_row sample_record, record_row second_record]\<rparr>,
                       set_column = [(0, Width 20), (1, Width 13), (2, Width 9), (3, Width 14),
                                     (4, Width 10), (5, Width 14), (6, Width 22)]\<rparr>)]"
  by code_simp

section \<open>Properties of the script\<close>

lemma save_uploads_id:
  "save_uploads dir fp fid fs = Inr (fp', fid') \<Longrightarrow>
   fid' = (case fid of Some n \<Rightarrow> Some n
           | None \<Rightarrow> (case fs of [] \<Rightarrow> None | f # _ \<Rightarrow> Some (file_name f)))"
  by (induction dir fp fid fs rule: save_uploads.induct)
    (auto split: if_splits option.splits list.splits)

lemma appended_run:
  assumes "appended (run s) = Some (cat, data)"
  obtains fp fid shown g where
    "save_uploads (temp_dir s) [] None (uploaded_files s) = Inr (fp, fid)"
    "analysis s fid = (shown, snd (extract_patient_id fid), Some g)"
    "cat = sheet_name (parameters (treatment_option s))"
    "data = data_to_save s (snd (extract_patient_id fid)) g"
  using assms
  by (auto simp: run_def Let_def save_results_def analysis_def
      split: if_splits sum.splits prod.splits option.splits raised.splits)

lemma appended_patient_id:
  assumes a: "appended (run s) = Some (cat, data)" and u: "uploaded_files s = f # fs"
  shows "map_of data ''Patient ID'' = Some (Str (snd (extract_patient_id (Some (file_name f)))))"
proof -
  from a obtain fp fid shown g where
    sv: "save_uploads (temp_dir s) [] None (uploaded_files s) = Inr (fp, fid)" and
    "analysis s fid = (shown, snd (extract_patient_id fid), Some g)" and
    d: "data = data_to_save s (snd (extract_patient_id fid)) g"
    by (rule appended_run)
  from save_uploads_id [OF sv] u have "fid = Some (file_name f)"
    by simp
  with d show ?thesis
    by (simp add: data_to_save_def)
qed

subsection \<open>C6: the patient identifier is the first 12 characters\<close>

text \<open>
  Claim C6. When the name of the first submitted file has at least 12 characters, the
  patient identifier is exactly its first 12 characters: this is what the script shows,
  and what a record of this run carries under \<^verbatim>\<open>Patient ID\<close>.
\<close>

theorem patient_id_first_12:
  assumes "12 \<le> length n"
  shows "extract_patient_id (Some n) = ([Patient_id_shown (take 12 n)], take 12 n) \<and>
         (\<forall>s f fs cat data.
            uploaded_files s = f # fs \<and> file_name f = n \<and> appended (run s) = Some (cat, data) \<longrightarrow>
            map_of data ''Patient ID'' = Some (Str (take 12 n)))"
proof -
  from assms have e: "extract_patient_id (Some n) = ([Patient_id_shown (take 12 n)], take 12 n)"
    by (auto simp: extract_patient_id_def)
  then show ?thesis
    using appended_patient_id by fastforce
qed

text \<open>The name of the specification's example, and a run on two uploaded files.\<close>

theorem patient_id_first_12_witness:
  "extract_patient_id (Some ''ABCDEFGHIJKL_arc1.log'') =
     ([Patient_id_shown ''ABCDEFGHIJKL''], ''ABCDEFGHIJKL'') \<and>
   map_of (snd (the (appended (run sample_session)))) ''Patient ID'' = Some (Str ''ABCDEFGHIJKL'')"
proof -
  have a: "appended (run sample_session) =
             Some (''VMAT'', data_to_save sample_session ''ABCDEFGHIJKL'' (fl (99871 / 1000)))"
    by code_simp
  have u: "uploaded_files sample_session =
             \<lparr>file_name = ''ABCDEFGHIJKL_arc1.bin'', write_ok = True\<rparr> #
             [\<lparr>file_name = ''ABCDEFGHIJKL_arc2.bin'', write_ok = True\<rparr>]"
    by (simp add: sample_session_def)
  have l: "12 \<le> length ''ABCDEFGHIJKL_arc1.log''" and l': "12 \<le> length ''ABCDEFGHIJKL_arc1.bin''"
    by simp_all
  have "map_of (data_to_save sample_session ''ABCDEFGHIJKL'' (fl (99871 / 1000))) ''Patient ID'' =
          Some (Str (take 12 ''ABCDEFGHIJKL_arc1.bin''))"
    using patient_id_first_12 [OF l', THEN conjunct2, rule_format,
        of sample_session "\<lparr>file_name = ''ABCDEFGHIJKL_arc1.bin'', write_ok = True\<rparr>"
          "[\<lparr>file_name = ''ABCDEFGHIJKL_arc2.bin'', write_ok = True\<rparr>]" "''VMAT''"
          "data_to_save sample_session ''ABCDEFGHIJKL'' (fl (99871 / 1000))"] a u
    by simp
  with patient_id_first_12 [OF l] a
  show ?thesis by simp
qed

subsection \<open>C2: a name shorter than 12 characters\<close>

text \<open>
  Claim C2 says that a first name shorter than 12 characters is rejected with an error
  and that no identifier is put in its place. The script shows a warning, takes
  \<^verbatim>\<open>Unknown\<close> as the identifier (line 244, \<^verbatim>\<open># Assign a default value\<close>) and goes on:
  with the one file \<^verbatim>\<open>short.bin\<close> the analysis runs, the saving widgets are drawn and the
  submitted record is stored under the patient \<^verbatim>\<open>Unknown\<close>.
\<close>

theorem short_name_rejected_counterexample:
  "length ''short.bin'' < 12 \<and>
   uploaded_files short_session = [\<lparr>file_name = ''short.bin'', write_ok = True\<rparr>] \<and>
   extract_patient_id (Some ''short.bin'') = ([Warning_no_patient_id], ''Unknown'') \<and>
   events (run short_session) =
     [Parameters_shown 0 (fl (44 / 100)) 10 (fl (1 / 10)) Global, Warning_no_patient_id,
      Arc_gamma_shown (fl (9912 / 100)), Patient_gamma_shown (fl (99871 / 1000)),
      Save_form_shown, Store_message (Success_saved ''VMAT'')] \<and>
   written_rows ([], written (run short_session)) ''VMAT'' =
     Some [[Str ''2024-05-06 10:11:12'', Str ''Unknown'', Str ''Recto'', Num 10,
            Num (round2 (fl (99871 / 1000))), Str ''Global'', Num 99]]"
  by code_simp

text \<open>
  Claim C2, amended. When the name of the first submitted file has fewer than 12
  characters, nothing is rejected and the name is not cut: the script shows a warning and
  the patient identifier is the fixed word \<^verbatim>\<open>Unknown\<close>, which a record of this run
  carries under \<^verbatim>\<open>Patient ID\<close>.
\<close>

theorem short_name_gives_unknown:
  assumes "length n < 12"
  shows "extract_patient_id (Some n) = ([Warning_no_patient_id], ''Unknown'') \<and>
         (\<forall>s f fs cat data.
            uploaded_files s = f # fs \<and> file_name f = n \<and> appended (run s) = Some (cat, data) \<longrightarrow>
            map_of data ''Patient ID'' = Some (Str ''Unknown''))"
proof -
  from assms have e: "extract_patient_id (Some n) = ([Warning_no_patient_id], ''Unknown'')"
    by (auto simp: extract_patient_id_def)
  then show ?thesis
    using appended_patient_id by fastforce
qed

text \<open>The amended claim at the file \<^verbatim>\<open>short.bin\<close>.\<close>

theorem short_name_gives_unknown_witness:
  "extract_patient_id (Some ''short.bin'') = ([Warning_no_patient_id], ''Unknown'') \<and>
   map_of (snd (the (appended (run short_session)))) ''Patient ID'' = Some (Str ''Unknown'')"
proof -
  have a: "appended (run short_session) =
             Some (''VMAT'', data_to_save short_session ''Unknown'' (fl (99871 / 1000)))"
    by code_simp
  have u: "uploaded_files short_session = \<lparr>file_name = ''short.bin'', write_ok = True\<rparr> # []"
    by (simp add: short_session_def sample_session_def)
  have l: "length ''short.bin'' < 12"
    by simp
  have "map_of (data_to_save short_session ''Unknown'' (fl (99871 / 1000))) ''Patient ID'' =
          Some (Str ''Unknown'')"
    using short_name_gives_unknown [OF l, THEN conjunct2, rule_format,
        of short_session "\<lparr>file_name = ''short.bin'', write_ok = True\<rparr>" "[]" "''VMAT''"
          "data_to_save short_session ''Unknown'' (fl (99871 / 1000))"] a u
    by simp
  with short_name_gives_unknown [OF l] a
  show ?thesis by simp
qed

subsection \<open>C5: the two presets\<close>

text \<open>
  Claim C5. For each of the three options the distance to agreement is 0 and the
  resolution is the float 0.1, in the preset and in the arguments passed to the gamma
  computation; the dose difference is the float 0.44 for VMAT and the float 0.69 for
  SBRT and for SRS, and it is the dose difference of the preset that is passed.
\<close>

theorem preset_parameters:
  "dta (parameters option) = 0 \<and>
   res (parameters option) = fl (1 / 10) \<and>
   dd (parameters VMAT) = fl (44 / 100) \<and>
   dd (parameters SBRT) = fl (69 / 100) \<and>
   dd (parameters SRS) = fl (69 / 100) \<and>
   distTA (gamma_call option choice thd_percent) = 0 \<and>
   resolution (gamma_call option choice thd_percent) = fl (1 / 10) \<and>
   doseTA (gamma_call option choice thd_percent) = dd (parameters option)"
  by (simp add: parameters_def gamma_call_def)

subsection \<open>C7: the category and the preset follow the technique\<close>

text \<open>
  Claim C7. The category is \<^verbatim>\<open>VMAT\<close> for VMAT and \<^verbatim>\<open>SBRT-SRS\<close>, a different one, for
  SBRT and for SRS; a run that appends a record appends it to the category of the selected
  option, whatever the other inputs are. The arguments of the gamma computation take the
  distance to agreement, the dose difference and the resolution from the preset of the
  option; the threshold is the operator's percentage divided by 100 and the normalisation
  flag is the operator's choice.
\<close>

theorem category_by_technique:
  "sheet_name (parameters VMAT) = ''VMAT'' \<and>
   sheet_name (parameters SBRT) = ''SBRT-SRS'' \<and>
   sheet_name (parameters SRS) = ''SBRT-SRS'' \<and>
   sheet_name (parameters VMAT) \<noteq> sheet_name (parameters SBRT) \<and>
   (\<forall>cat data. appended (run s) = Some (cat, data) \<longrightarrow>
      cat = sheet_name (parameters (treatment_option s))) \<and>
   gamma_call option choice thd_percent =
     \<lparr>distTA = dta (parameters option), doseTA = dd (parameters option),
      threshold = float_div thd_percent 100, resolution = res (parameters option),
      normalize_arg = (choice = Global)\<rparr>"
proof -
  have "cat = sheet_name (parameters (treatment_option s))"
    if "appended (run s) = Some (cat, data)" for cat data
    using that by (rule appended_run)
  moreover have "normalize_flag choice = (choice = Global)"
    by (cases choice) (simp_all add: normalize_flag_def)
  ultimately show ?thesis
    by (simp add: parameters_def gamma_call_def thd_def)
qed

text \<open>A run that appends: the option is VMAT and so is the category.\<close>

theorem category_by_technique_witness:
  "appended (run sample_session) =
     Some (''VMAT'', data_to_save sample_session ''ABCDEFGHIJKL'' (fl (99871 / 1000))) \<and>
   sheet_name (parameters (treatment_option sample_session)) = ''VMAT''"
proof -
  have a: "appended (run sample_session) =
             Some (''VMAT'', data_to_save sample_session ''ABCDEFGHIJKL'' (fl (99871 / 1000)))"
    by code_simp
  from category_by_technique [of sample_session, THEN conjunct2, THEN conjunct2, THEN conjunct2,
      THEN conjunct2, THEN conjunct1, rule_format, OF a]
  have "''VMAT'' = sheet_name (parameters (treatment_option sample_session))" .
  with a show ?thesis by simp
qed

subsection \<open>C8: no saving after a failed analysis\<close>

text \<open>
  Claim C8. When the gamma computation of the selected log or the computation over all
  logs raises, the run shows no patient gamma, does not draw the saving widgets, does not
  call \<^verbatim>\<open>append_to_excel\<close> and writes nothing. Conversely, a run that draws the saving
  widgets or appends a record has computed both values and has shown the patient gamma.
  (The percentage of the selected arc, computed first, is shown before a later failure.)
\<close>

theorem failed_analysis_saves_nothing:
  "(analysis_failed s \<longrightarrow>
      appended (run s) = None \<and> written (run s) = None \<and>
      Save_form_shown \<notin> set (events (run s)) \<and>
      (\<forall>g. Patient_gamma_shown g \<notin> set (events (run s)))) \<and>
   (Save_form_shown \<in> set (events (run s)) \<or> appended (run s) \<noteq> None \<or> written (run s) \<noteq> None \<longrightarrow>
      (\<exists>arc g. calc_map (engine s) (file_select s) (session_args s) = Returns arc \<and>
               avg_gamma_pct (engine s) (session_args s) = Returns g \<and>
               Patient_gamma_shown g \<in> set (events (run s))))"
  by (auto simp: analysis_failed_def session_args_def run_def Let_def save_results_def
        analysis_def extract_patient_id_def
      split: if_splits sum.splits prod.splits option.splits raised.splits)

text \<open>A run whose averaging raises, and a run that succeeds.\<close>

theorem failed_analysis_saves_nothing_witness:
  "analysis_failed failed_session \<and>
   appended (run failed_session) = None \<and> written (run failed_session) = None \<and>
   Save_form_shown \<notin> set (events (run failed_session)) \<and>
   Save_form_shown \<in> set (events (run sample_session)) \<and>
   avg_gamma_pct (engine sample_session) (session_args sample_session) = Returns (fl (99871 / 1000))"
proof -
  have f: "analysis_failed failed_session"
    by (simp add: analysis_failed_def failed_session_def)
  have g: "Save_form_shown \<in> set (events (run sample_session))"
    by code_simp
  have r: "avg_gamma_pct (engine sample_session) (session_args sample_session) =
             Returns (fl (99871 / 1000))"
    by (simp add: sample_session_def sample_engine_def)
  from failed_analysis_saves_nothing [of failed_session] f
  have "appended (run failed_session) = None \<and> written (run failed_session) = None \<and>
        Save_form_shown \<notin> set (events (run failed_session))"
    by blast
  moreover from failed_analysis_saves_nothing [of sample_session] g
  have "\<exists>arc g. calc_map (engine sample_session) (file_select sample_session)
                     (session_args sample_session) = Returns arc \<and>
                 avg_gamma_pct (engine sample_session) (session_args sample_session) = Returns g \<and>
                 Patient_gamma_shown g \<in> set (events (run sample_session))"
    by blast
  ultimately show ?thesis
    using f g r by simp
qed

subsection \<open>Rounding to a float\<close>

text \<open>
  Rounding to the nearest float changes a number by at most half a unit in the last
  place: by at most \<open>2 ^ - 53\<close> of its size, or by \<open>2 ^ - 1075\<close> for a number so small
  that the mantissa has fewer than 53 bits.
\<close>

lemma round_half_even_error: "\<bar>of_int (round_half_even x) - x\<bar> \<le> 1 / 2"
proof -
  have "of_int \<lfloor>x\<rfloor> \<le> x" "x < of_int \<lfloor>x\<rfloor> + 1"
    by linarith+
  then show ?thesis
    by (auto simp: round_half_even_def Let_def)
qed

lemma two_powi_diff:
  "0 \<le> a \<Longrightarrow> 0 \<le> b \<Longrightarrow> (2::rat) powi (a - b) = 2 ^ nat a / 2 ^ nat b"
proof -
  assume a: "0 \<le> a" and b: "0 \<le> b"
  have "(2::rat) powi (a - b) = 2 powi a / 2 powi b"
    by (rule power_int_diff) simp
  also have "(2::rat) powi a = 2 ^ nat a"
    using a by (simp add: power_int_def)
  also have "(2::rat) powi b = 2 ^ nat b"
    using b by (simp add: power_int_def)
  finally show ?thesis .
qed

lemma ilog2_le:
  assumes "0 < x"
  shows "2 powi (ilog2 x) \<le> x"
proof -
  obtain p q where pq: "quotient_of x = (p, q)"
    by (cases "quotient_of x")
  have q: "0 < q" and x: "x = of_int p / of_int q"
    using quotient_of_denom_pos [OF pq] quotient_of_div [OF pq] by simp_all
  with assms have p: "0 < p"
    by (simp add: zero_less_divide_iff)
  have bp: "2 ^ nat (bitlen p - 1) \<le> p" and bq: "q < 2 ^ nat (bitlen q)"
    using bitlen_bounds [OF p] bitlen_bounds [OF q] by simp_all
  have p1: "1 \<le> bitlen p"
    using p bitlen_nonneg [of p] bitlen_eq_zero_iff [of p] by linarith
  have "(2::rat) powi (bitlen p - bitlen q - 1) = 2 ^ nat (bitlen p - 1) / 2 ^ nat (bitlen q)"
    using two_powi_diff [of "bitlen p - 1" "bitlen q"] p1 bitlen_nonneg [of q]
    by (simp add: algebra_simps)
  also have "\<dots> \<le> of_int p / of_int q"
  proof (rule frac_le)
    show "(0::rat) \<le> of_int p" using p by simp
    show "(2::rat) ^ nat (bitlen p - 1) \<le> of_int p"
    proof -
      from bp have "(of_int (2 ^ nat (bitlen p - 1)) :: rat) \<le> of_int p"
        by (simp only: of_int_le_iff)
      then show ?thesis by simp
    qed
    show "(0::rat) < of_int q" using q by simp
    show "(of_int q :: rat) \<le> 2 ^ nat (bitlen q)"
    proof -
      from bq have "(of_int q :: rat) \<le> of_int (2 ^ nat (bitlen q))"
        by (simp only: of_int_le_iff)
      then show ?thesis by simp
    qed
  qed
  finally have "2 powi (bitlen p - bitlen q - 1) \<le> x"
    by (simp add: x)
  then show ?thesis
    by (simp add: ilog2_def pq Let_def)
qed

lemma fl_error: "\<bar>fl x - x\<bar> \<le> \<bar>x\<bar> / 2 ^ 53 + 1 / 2 ^ 1075"
proof (cases "x = 0")
  case True
  then show ?thesis by (simp add: fl_def)
next
  case False
  define e where "e = max (ilog2 \<bar>x\<bar> - 52) (- 1074)"
  define s :: rat where "s = 2 powi e"
  have s: "0 < s"
    by (simp add: s_def)
  have f: "fl x = of_int (round_half_even (x / s)) * s"
    using False by (simp add: fl_def Let_def e_def s_def)
  have "fl x - x = (of_int (round_half_even (x / s)) - x / s) * s"
    using s by (simp add: f algebra_simps)
  then have "\<bar>fl x - x\<bar> = \<bar>of_int (round_half_even (x / s)) - x / s\<bar> * s"
    using s by (simp add: abs_mult)
  also have "\<dots> \<le> 1 / 2 * s"
    using s round_half_even_error [of "x / s"] by (intro mult_right_mono) simp_all
  finally have h: "\<bar>fl x - x\<bar> \<le> s / 2"
    by simp
  have "s / 2 \<le> \<bar>x\<bar> / 2 ^ 53 + 1 / 2 ^ 1075"
  proof (cases "- 1074 \<le> ilog2 \<bar>x\<bar> - 52")
    case True
    then have "e = ilog2 \<bar>x\<bar> - 52"
      by (simp add: e_def)
    then have "s = 2 powi (ilog2 \<bar>x\<bar>) / 2 powi 52"
      by (simp add: s_def power_int_diff)
    also have "\<dots> \<le> \<bar>x\<bar> / 2 powi 52"
      using ilog2_le [of "\<bar>x\<bar>"] False by (intro divide_right_mono) simp_all
    finally have "s / 2 \<le> \<bar>x\<bar> / 2 ^ 53"
      by simp
    then show ?thesis
      by (rule order_trans) simp
  next
    case False
    then have "e = - 1074"
      by (simp add: e_def)
    then have "s = 2 powi (- 1074)"
      by (simp add: s_def)
    then have "s / 2 = 1 / 2 ^ 1075"
      by (simp add: power_int_minus field_simps)
    then show ?thesis
      by simp
  qed
  with h show ?thesis
    by (rule order_trans)
qed

lemma round_trip_error:
  assumes "0 \<le> t"
  shows "\<bar>float_mul (float_div t 100) 100 - t\<bar> \<le> t / 2 ^ 51 + 1 / 2 ^ 1067"
proof -
  define u :: rat where "u = 1 / 2 ^ 53"
  define m :: rat where "m = 1 / 2 ^ 1075"
  define q where "q = fl (t / 100)"
  define p where "p = fl (q * 100)"
  have u: "0 < u" "u \<le> 1" and m: "0 < m"
    by (simp_all add: u_def m_def)
  have 1: "\<bar>q - t / 100\<bar> \<le> t / 100 * u + m"
    using fl_error [of "t / 100"] assms by (simp add: q_def u_def m_def)
  then have 2: "\<bar>q * 100 - t\<bar> \<le> t * u + 100 * m"
    by (simp add: abs_le_iff) 
  then have 3: "\<bar>q * 100\<bar> \<le> t + t * u + 100 * m"
    using assms by (simp add: abs_le_iff)
  have "\<bar>p - q * 100\<bar> \<le> \<bar>q * 100\<bar> * u + m"
    using fl_error [of "q * 100"] by (simp add: p_def u_def m_def)
  also have "\<dots> \<le> (t + t * u + 100 * m) * u + m"
    using 3 u by (simp add: mult_right_mono)
  finally have 4: "\<bar>p - q * 100\<bar> \<le> (t + t * u + 100 * m) * u + m" .
  define a where "a = t * u"
  define b where "b = a * u"
  define c where "c = m * u"
  have a: "0 \<le> a"
    using assms u by (simp add: a_def)
  have b: "b \<le> a" and c: "c \<le> m"
    using a u m by (simp_all add: b_def c_def mult_left_le)
  have 2: "\<bar>q * 100 - t\<bar> \<le> a + 100 * m"
    using 2 by (simp add: a_def)
  have "(t + t * u + 100 * m) * u + m = a + b + 100 * c + m"
    by (simp add: a_def b_def c_def algebra_simps)
  with 4 have 4: "\<bar>p - q * 100\<bar> \<le> a + b + 100 * c + m"
    by simp
  from 2 4 a b c have "\<bar>p - t\<bar> \<le> 4 * a + 256 * m"
    using m by linarith
  moreover have "4 * a = t / 2 ^ 51"
    by (simp add: a_def u_def)
  moreover have "256 * m = 1 / 2 ^ 1067"
    by (simp add: m_def)
  ultimately show ?thesis
    by (simp add: p_def q_def float_mul_def float_div_def)
qed

subsection \<open>C9: the threshold, as a fraction and back\<close>

text \<open>
  Claim C9 says that the value stored under \<^verbatim>\<open>Threshold (%)\<close> is the percentage the
  operator entered. The script stores \<^verbatim>\<open>thd * 100\<close> with \<^verbatim>\<open>thd = thd_percent / 100.0\<close>,
  two float operations, each of which rounds. For the threshold 7 the quotient is the
  float nearest to 0.07, a little above it, and the product rounds to the float after 7:
  the record holds 7.000000000000001.
\<close>

theorem threshold_round_trip_counterexample:
  "threshold_percent seven_session = 7 \<and> fl 7 = 7 \<and>
   threshold (session_args seven_session) = fl (7 / 100) \<and>
   map_of (snd (the (appended (run seven_session)))) ''Threshold (%)'' =
     Some (Num (7 + 1 / 2 ^ 50)) \<and>
   float_mul (thd 7) 100 \<noteq> 7"
  by code_simp

text \<open>
  Claim C9, amended. The percentage \<open>t\<close> the operator enters, between 0 and 100, is divided
  by 100 as a float before it is passed to the gamma computation, and the value stored
  under \<^verbatim>\<open>Threshold (%)\<close> is this fraction multiplied by 100 as a float. The stored
  value is \<open>t\<close> up to the rounding of the two operations: it differs from \<open>t\<close> by at most
  \<open>t / 2 ^ 51 + 1 / 2 ^ 1067\<close>.
\<close>

theorem threshold_round_trip:
  assumes "0 \<le> t" and "t \<le> 100"
  shows "threshold (gamma_call option choice t) = float_div t 100 \<and>
         (\<forall>s cat data.
            threshold_percent s = t \<and> appended (run s) = Some (cat, data) \<longrightarrow>
            map_of data ''Threshold (%)'' = Some (Num (float_mul (float_div t 100) 100))) \<and>
         \<bar>float_mul (float_div t 100) 100 - t\<bar> \<le> t / 2 ^ 51 + 1 / 2 ^ 1067"
proof -
  have "map_of data ''Threshold (%)'' = Some (Num (float_mul (float_div t 100) 100))"
    if "threshold_percent s = t \<and> appended (run s) = Some (cat, data)" for s cat data
  proof -
    from that obtain fp fid shown g where
      "save_uploads (temp_dir s) [] None (uploaded_files s) = Inr (fp, fid)"
      "analysis s fid = (shown, snd (extract_patient_id fid), Some g)"
      "data = data_to_save s (snd (extract_patient_id fid)) g"
      by (auto elim: appended_run)
    with that show ?thesis
      by (simp add: data_to_save_def thd_def)
  qed
  with round_trip_error [OF assms(1)] show ?thesis
    by (simp add: gamma_call_def thd_def)
qed

text \<open>
  The amended claim at the default threshold, 10, which is stored as 10, and at 7, which
  is stored as the next float: both within the bound.
\<close>

theorem threshold_round_trip_witness:
  "float_mul (float_div 10 100) 100 = 10 \<and>
   map_of (snd (the (appended (run sample_session)))) ''Threshold (%)'' = Some (Num 10) \<and>
   \<bar>float_mul (float_div 7 100) 100 - 7\<bar> = 1 / 2 ^ 50 \<and>
   \<bar>float_mul (float_div 7 100) 100 - 7\<bar> \<le> 7 / 2 ^ 51 + 1 / 2 ^ 1067"
proof -
  have a: "appended (run sample_session) =
             Some (''VMAT'', data_to_save sample_session ''ABCDEFGHIJKL'' (fl (99871 / 1000)))"
    by code_simp
  have t: "threshold_percent sample_session = 10"
    by (simp add: sample_session_def)
  have e: "float_mul (float_div 10 100) 100 = 10"
    by code_simp
  have s: "\<bar>float_mul (float_div 7 100) 100 - 7\<bar> = 1 / 2 ^ 50"
    by code_simp
  have "map_of (data_to_save sample_session ''ABCDEFGHIJKL'' (fl (99871 / 1000))) ''Threshold (%)'' =
          Some (Num (float_mul (float_div 10 100) 100))"
    using threshold_round_trip [of 10, THEN conjunct2, THEN conjunct1, rule_format,
        of sample_session "''VMAT''"
          "data_to_save sample_session ''ABCDEFGHIJKL'' (fl (99871 / 1000))"] a t
    by simp
  moreover have "\<bar>float_mul (float_div 7 100) 100 - 7\<bar> \<le> 7 / 2 ^ 51 + 1 / 2 ^ 1067"
    using threshold_round_trip [of 7] by simp
  ultimately show ?thesis
    using a e s by simp
qed

end
